theory Spec2Isabelle
  imports Main
begin

section \<open>Python values the development cog works with\<close>

text \<open>
  The cog is Python. A \<open>str\<close> is modelled as a HOL \<open>string\<close> whose characters are the
  code points below 256; an \<open>int\<close> is a HOL \<open>int\<close>. Every exception class the source
  raises, catches or lets through is a constructor of \<open>exn\<close>. A \<open>SyntaxError\<close> carries
  what \<open>get_syntax_error\<close> reads from it: the name of its class, its \<open>text\<close> (or
  \<open>None\<close>), its \<open>offset\<close> and its \<open>str()\<close>. \<open>OtherException\<close> stands for any other
  subclass of \<open>Exception\<close> and \<open>NonException\<close> for a \<open>BaseException\<close> that is not an
  \<open>Exception\<close> (\<open>KeyboardInterrupt\<close>, \<open>SystemExit\<close>).
\<close>

datatype exn = SyntaxError string "string option" nat string
  | ValueError | KeyError | AttributeError | RuntimeError | TimeoutError
  | HTTPException | Forbidden | OtherException string | NonException string

fun is_Exception :: "exn \<Rightarrow> bool" where
  "is_Exception (NonException _) = False"
| "is_Exception _ = True"

fun is_SyntaxError :: "exn \<Rightarrow> bool" where
  "is_SyntaxError (SyntaxError _ _ _ _) = True"
| "is_SyntaxError _ = False"

text \<open>\<open>discord.Forbidden\<close> is a subclass of \<open>discord.HTTPException\<close>.\<close>

fun is_HTTPException :: "exn \<Rightarrow> bool" where
  "is_HTTPException HTTPException = True"
| "is_HTTPException Forbidden = True"
| "is_HTTPException _ = False"

text \<open>
  The values executed code produces. Only what the cog looks at is kept: whether a value is
  \<open>None\<close>, and whether it is awaitable. Awaiting an awaitable gives a value or raises.
\<close>

datatype val = VNone | VInt int | VStr string | VExc exn | VObj string | VAwaitable outcome
and outcome = Return val | Raise exn

fun isawaitable :: "val \<Rightarrow> bool" where
  "isawaitable (VAwaitable _) = True"
| "isawaitable _ = False"

fun await :: "val \<Rightarrow> outcome" where
  "await (VAwaitable out) = out"
| "await _ = Raise (OtherException ''TypeError'')"

subsection \<open>String primitives\<close>

text \<open>\<open>str.isspace\<close> on one character, for the code points below 256.\<close>

definition is_space :: "char \<Rightarrow> bool" where
  "is_space c = (let n = (of_char c :: nat) in
     (9 \<le> n \<and> n \<le> 13) \<or> (28 \<le> n \<and> n \<le> 32) \<or> n = 133 \<or> n = 160)"

text \<open>\<open>s.strip()\<close> and \<open>s.strip(chars)\<close>.\<close>

definition strip_chars :: "(char \<Rightarrow> bool) \<Rightarrow> string \<Rightarrow> string" where
  "strip_chars p s = rev (dropWhile p (rev (dropWhile p s)))"

definition strip :: "string \<Rightarrow> string" where
  "strip s = strip_chars is_space s"

text \<open>
  A slice bound as Python clamps it: a negative bound counts from the end, and every bound
  is brought into \<open>0..len\<close>. \<open>s[:k]\<close> is \<open>slice_to s k\<close> and \<open>s[k:]\<close> is
  \<open>slice_from s k\<close>.
\<close>

definition slice_index :: "nat \<Rightarrow> int \<Rightarrow> nat" where
  "slice_index n i = (if i < 0 then nat (max 0 (i + int n)) else min (nat i) n)"

definition slice_to :: "string \<Rightarrow> int \<Rightarrow> string" where
  "slice_to s k = take (slice_index (length s) k) s"

definition slice_from :: "string \<Rightarrow> int \<Rightarrow> string" where
  "slice_from s k = drop (slice_index (length s) k) s"

text \<open>
  \<open>s.rfind(sub, start, stop)\<close>: the highest index \<open>i\<close> with \<open>start \<le> i\<close>,
  \<open>i + len(sub) \<le> stop\<close> and \<open>s[i:i+len(sub)] == sub\<close>, after the bounds are adjusted
  the way CPython does (\<open>stop\<close> clamped to the length, negative bounds counted from the
  end, \<open>start\<close> not clamped from above); \<open>-1\<close> when there is none.
\<close>

definition adjust_stop :: "nat \<Rightarrow> int \<Rightarrow> int" where
  "adjust_stop n stop =
     (if stop > int n then int n else if stop < 0 then max 0 (stop + int n) else stop)"

definition adjust_start :: "nat \<Rightarrow> int \<Rightarrow> int" where
  "adjust_start n start = (if start < 0 then max 0 (start + int n) else start)"

definition rfind :: "string \<Rightarrow> string \<Rightarrow> int \<Rightarrow> int \<Rightarrow> int" where
  "rfind s sub start stop =
     (let e = adjust_stop (length s) stop;
          b = adjust_start (length s) start;
          m = int (length sub)
      in if e - b < m then - 1
         else (case find (\<lambda>i. take (length sub) (drop i s) = sub)
                          (rev [nat b ..< Suc (nat (e - m))]) of
                 None \<Rightarrow> - 1
               | Some i \<Rightarrow> int i))"

section \<open>The pager\<close>

text \<open>
  The choice of the split point from the \<open>rfind\<close> results of the delimiters, in the order
  of \<open>delims\<close>. With \<open>priority\<close> it is \<open>next((x for x in found if x > 0), -1)\<close>; without,
  it is \<open>max(found)\<close>, which raises \<open>ValueError\<close> on an empty sequence.
\<close>

fun closest_delim :: "bool \<Rightarrow> int list \<Rightarrow> exn + int" where
  "closest_delim True found =
     Inr (case find (\<lambda>x. x > 0) found of None \<Rightarrow> - 1 | Some x \<Rightarrow> x)"
| "closest_delim False [] = Inl ValueError"
| "closest_delim False (x # xs) = Inr (fold max xs x)"

text \<open>
  The \<open>while\<close> loop of \<open>pagify\<close> and the final \<open>yield\<close>. The generator's observable
  behaviour is the list of pages it yields, followed by its normal end (\<open>None\<close>) or by the
  exception it raises; \<open>pages\<close> accumulates what has been yielded so far. The loop need
  not end, so the function is partial: the value \<open>None\<close> of the outer option says that
  the generator never finishes, which is all that a consumer such as \<open>tuple\<close> can find
  out about it.
\<close>

partial_function (option) pagify_loop ::
  "string list \<Rightarrow> bool \<Rightarrow> int \<Rightarrow> string list \<Rightarrow> string
     \<Rightarrow> (string list \<times> exn option) option" where
  "pagify_loop delims priority page_length pages in_text =
     (if int (length in_text) > page_length then
        (let this_page_len = page_length in
         case closest_delim priority (map (\<lambda>d. rfind in_text d 1 this_page_len) delims) of
           Inl e \<Rightarrow> Some (pages, Some e)
         | Inr c \<Rightarrow>
             (let c' = (if c \<noteq> - 1 then c else this_page_len);
                  to_send = slice_to in_text c'
              in pagify_loop delims priority page_length
                   (if length (strip to_send) > 0 then pages @ [to_send] else pages)
                   (slice_from in_text c')))
      else Some (if length (strip in_text) > 0 then pages @ [in_text] else pages, None))"

definition pagify ::
  "string \<Rightarrow> string list \<Rightarrow> bool \<Rightarrow> int \<Rightarrow> int \<Rightarrow> (string list \<times> exn option) option" where
  "pagify text delims priority shorten_by page_length =
     pagify_loop delims priority (page_length - shorten_by) [] text"

section \<open>Cleaning the input and the output\<close>

subsection \<open>\<open>maybe_await\<close>\<close>

text \<open>
  The \<open>for i in range(2)\<close> loop of \<open>maybe_await\<close>, on the list of the values of \<open>i\<close>:
  an awaitable is awaited and the loop goes on with its result, anything else is returned
  at once; when the range is used up the value is returned as it is.
\<close>

fun maybe_await_loop :: "nat list \<Rightarrow> val \<Rightarrow> outcome" where
  "maybe_await_loop [] coro = Return coro"
| "maybe_await_loop (i # rest) coro =
     (if isawaitable coro then
        (case await coro of Raise e \<Rightarrow> Raise e | Return v \<Rightarrow> maybe_await_loop rest v)
      else Return coro)"

definition maybe_await :: "val \<Rightarrow> outcome" where
  "maybe_await coro = maybe_await_loop [0..<2] coro"

subsection \<open>\<open>cleanup_code\<close>\<close>

definition startswith :: "string \<Rightarrow> string \<Rightarrow> bool" where
  "startswith s p = (take (length p) s = p)"

definition endswith :: "string \<Rightarrow> string \<Rightarrow> bool" where
  "endswith s p = (length p \<le> length s \<and> drop (length s - length p) s = p)"

text \<open>The lookahead \<open>(?=\s)\<close> at position \<open>n\<close>: a character follows and it is whitespace.\<close>

definition followed_by_space :: "string \<Rightarrow> nat \<Rightarrow> bool" where
  "followed_by_space s n = (case drop n s of [] \<Rightarrow> False | c # _ \<Rightarrow> is_space c)"

text \<open>
  \<open>START_CODE_BLOCK_RE.sub("", content)\<close> for the pattern
  \<^verbatim>\<open>^((```py(thon)?)(?=\s)|(```))\<close>: the pattern is anchored at the start, so at most one
  match is removed; the greedy \<open>(thon)?\<close> is tried first, then \<open>py\<close> alone, each only when
  whitespace follows, then the bare fence.
\<close>

definition sub_start_code_block :: "string \<Rightarrow> string" where
  "sub_start_code_block content =
     (if startswith content ''```python'' \<and> followed_by_space content 9 then drop 9 content
      else if startswith content ''```py'' \<and> followed_by_space content 5 then drop 5 content
      else if startswith content ''```'' then drop 3 content
      else content)"

definition cleanup_code :: "string \<Rightarrow> string" where
  "cleanup_code content =
     (if startswith content ''```'' \<and> endswith content ''```''
      then slice_to (sub_start_code_block content) (- 3)
      else strip_chars (\<lambda>c. c \<in> set ''` \<newline>'') content)"

subsection \<open>\<open>sanitize_output\<close>\<close>

text \<open>
  \<open>re.sub(re.escape(token), repl, input_, count)\<close>: the pattern is the literal \<open>token\<close>,
  matched as it is written (no flag is set), left to right without overlap. \<open>budget\<close> is
  the number of replacements still allowed, \<open>None\<close> for no bound. The empty pattern
  matches once before every character and once at the end.
\<close>

fun dec_budget :: "nat option \<Rightarrow> nat option" where
  "dec_budget None = None"
| "dec_budget (Some n) = Some (n - 1)"

fun sub_literal :: "string \<Rightarrow> string \<Rightarrow> nat option \<Rightarrow> string \<Rightarrow> string" where
  "sub_literal tok repl budget [] =
     (if budget = Some 0 then [] else if tok = [] then repl else [])"
| "sub_literal tok repl budget (c # cs) =
     (if budget = Some 0 then c # cs
      else if tok = [] then repl @ c # sub_literal tok repl (dec_budget budget) cs
      else if take (length tok) (c # cs) = tok
        then repl @ sub_literal tok repl (dec_budget budget) (drop (length tok - 1) cs)
      else c # sub_literal tok repl budget cs)"

text \<open>\<open>count = 0\<close> asks \<open>re.sub\<close> for every occurrence.\<close>

definition re_sub_escaped :: "string \<Rightarrow> string \<Rightarrow> string \<Rightarrow> nat \<Rightarrow> string" where
  "re_sub_escaped tok repl s count =
     sub_literal tok repl (if count = 0 then None else Some count) s"

text \<open>The flag \<open>re.I\<close> (\<open>re.IGNORECASE\<close>) is the integer 2.\<close>

definition re_I :: nat where
  "re_I = 2"

text \<open>
  \<open>sanitize_output\<close> with \<open>ctx.bot.http.token\<close> passed as \<open>token\<close>. The source calls
  \<open>re.sub(re.escape(token), "[EXPUNGED]", input_, re.I)\<close>: the fourth positional
  parameter of \<open>re.sub\<close> is \<open>count\<close>, so \<open>re.I\<close> arrives as the count and no flag is set.
\<close>

definition sanitize_output :: "string \<Rightarrow> string \<Rightarrow> string" where
  "sanitize_output token input = re_sub_escaped token ''[EXPUNGED]'' input re_I"

section \<open>The message channel\<close>

text \<open>
  What the cog reads of a \<open>discord.Message\<close> and of the invocation context
  \<open>commands.Context\<close>: the ids it compares, the content, the prefix, the bot's token
  (\<open>ctx.bot.http.token\<close>), whether the bot may add reactions in the channel
  (\<open>ctx.channel.permissions_for(ctx.me).add_reactions\<close>), and the objects it only passes
  on to executed code.
\<close>

record message =
  m_author_id :: nat
  m_channel_id :: nat
  content :: string

record Context =
  author_id :: nat
  channel_id :: nat
  prefix :: string
  token :: string
  add_reactions :: bool
  bot :: val
  channel :: val
  author :: val
  guild :: val
  message :: message

text \<open>
  The channel is outside the cog. Its behaviour is given by a \<open>transport\<close>: for every
  call, identified by the number of channel events before it, whether the call fails and
  with which exception, and for a wait with a timeout, the messages dispatched before the
  deadline. The \<open>world\<close> is the log of the channel events so far; the handle of a sent
  message is its position in the log.
\<close>

datatype event = Sent string | SendFailed string exn
  | Deleted nat | DeleteFailed nat exn
  | BulkDeleted nat message | BulkDeleteFailed nat message exn
  | Received message | TimedOut
  | Reacted | ReactFailed exn

type_synonym world = "event list"

record transport =
  send_outcome :: "nat \<Rightarrow> exn option"
  delete_outcome :: "nat \<Rightarrow> exn option"
  delete_messages_outcome :: "nat \<Rightarrow> exn option"
  add_reaction_outcome :: "nat \<Rightarrow> exn option"
  arriving :: "nat \<Rightarrow> message list"

definition send :: "transport \<Rightarrow> world \<Rightarrow> string \<Rightarrow> world \<times> (exn + nat)" where
  "send tr w text =
     (case send_outcome tr (length w) of
        None \<Rightarrow> (w @ [Sent text], Inr (length w))
      | Some e \<Rightarrow> (w @ [SendFailed text e], Inl e))"

definition delete :: "transport \<Rightarrow> world \<Rightarrow> nat \<Rightarrow> world \<times> (exn + unit)" where
  "delete tr w h =
     (case delete_outcome tr (length w) of
        None \<Rightarrow> (w @ [Deleted h], Inr ())
      | Some e \<Rightarrow> (w @ [DeleteFailed h e], Inl e))"

definition delete_messages ::
  "transport \<Rightarrow> world \<Rightarrow> nat \<Rightarrow> message \<Rightarrow> world \<times> (exn + unit)" where
  "delete_messages tr w h m =
     (case delete_messages_outcome tr (length w) of
        None \<Rightarrow> (w @ [BulkDeleted h m], Inr ())
      | Some e \<Rightarrow> (w @ [BulkDeleteFailed h m e], Inl e))"

definition add_reaction :: "transport \<Rightarrow> world \<Rightarrow> world \<times> (exn + unit)" where
  "add_reaction tr w =
     (case add_reaction_outcome tr (length w) of
        None \<Rightarrow> (w @ [Reacted], Inr ())
      | Some e \<Rightarrow> (w @ [ReactFailed e], Inl e))"

text \<open>
  \<open>ctx.bot.wait_for("message", check=..., timeout=...)\<close>: the first message that arrives
  before the deadline and passes the check, or \<open>asyncio.TimeoutError\<close>.
\<close>

definition wait_for ::
  "transport \<Rightarrow> world \<Rightarrow> (message \<Rightarrow> bool) \<Rightarrow> world \<times> (exn + message)" where
  "wait_for tr w check =
     (case find check (arriving tr (length w)) of
        None \<Rightarrow> (w @ [TimedOut], Inl TimeoutError)
      | Some m \<Rightarrow> (w @ [Received m], Inr m))"

text \<open>\<open>with contextlib.suppress(discord.HTTPException): ...\<close> around one channel call.\<close>

definition suppress_HTTPException :: "world \<times> (exn + 'a) \<Rightarrow> world \<times> exn option" where
  "suppress_HTTPException r =
     (case r of
        (w, Inl e) \<Rightarrow> (w, if is_HTTPException e then None else Some e)
      | (w, Inr _) \<Rightarrow> (w, None))"

section \<open>Interactive delivery\<close>

text \<open>\<open>str(n)\<close> for a natural number, and \<open>str.lower\<close> on the code points below 256.\<close>

fun str_nat :: "nat \<Rightarrow> string" where
  "str_nat n =
     (if n < 10 then [''0123456789'' ! n] else str_nat (n div 10) @ [''0123456789'' ! (n mod 10)])"

definition lower_char :: "char \<Rightarrow> char" where
  "lower_char c =
     (case map_of (zip ''ABCDEFGHIJKLMNOPQRSTUVWXYZ'' ''abcdefghijklmnopqrstuvwxyz'') c of
        Some l \<Rightarrow> l
      | None \<Rightarrow>
          (let n = (of_char c :: nat) in
           if 192 \<le> n \<and> n \<le> 222 \<and> n \<noteq> 215 then char_of (n + 32) else c))"

definition lower :: "string \<Rightarrow> string" where
  "lower s = map lower_char s"

definition render :: "string option \<Rightarrow> string \<Rightarrow> string" where
  "render box_lang page =
     (case box_lang of
        None \<Rightarrow> page
      | Some lang \<Rightarrow> ''```'' @ lang @ ''\<newline>'' @ page @ ''\<newline>```'')"

definition remaining_query :: "nat \<Rightarrow> string" where
  "remaining_query n_remaining =
     (let plural = (if n_remaining = 1 then '''' else ''s'');
          is_are = (if n_remaining = 1 then ''is'' else ''are'')
      in ''There '' @ is_are @ '' still '' @ str_nat n_remaining @ '' message'' @ plural
           @ '' remaining. Type `more` to continue.'')"

definition more_predicate :: "Context \<Rightarrow> message \<Rightarrow> bool" where
  "more_predicate ctx m =
     (author_id ctx = m_author_id m \<and> channel_id ctx = m_channel_id m
      \<and> lower (content m) = ''more'')"

text \<open>
  The \<open>else\<close> branch after a reply: delete the query and the reply together; when that
  fails with \<open>HTTPException\<close> or \<open>AttributeError\<close>, delete the query alone, suppressing
  \<open>HTTPException\<close>. The result is the exception that escapes, if any.
\<close>

definition after_reply :: "transport \<Rightarrow> world \<Rightarrow> nat \<Rightarrow> message \<Rightarrow> world \<times> exn option" where
  "after_reply tr w query resp =
     (case delete_messages tr w query resp of
        (w1, Inl e) \<Rightarrow>
          if is_HTTPException e \<or> e = AttributeError
          then suppress_HTTPException (delete tr w1 query)
          else (w1, Some e)
      | (w1, Inr _) \<Rightarrow> (w1, None))"

text \<open>
  The \<open>for idx, page in enumerate(messages, 1)\<close> loop of \<open>send_interactive\<close>; \<open>n_messages\<close> is
  \<open>len(messages)\<close> and \<open>ret\<close> the handles collected so far. The result is the channel
  log afterwards with either the exception that escapes or the list returned.
\<close>

fun send_loop ::
  "transport \<Rightarrow> Context \<Rightarrow> string option \<Rightarrow> nat \<Rightarrow> nat \<Rightarrow> string list \<Rightarrow> nat list \<Rightarrow> world
     \<Rightarrow> world \<times> (exn + nat list)" where
  "send_loop tr ctx box_lang n_messages idx [] ret w = (w, Inr ret)"
| "send_loop tr ctx box_lang n_messages idx (page # rest) ret w =
     (case send tr w (render box_lang page) of
        (w1, Inl e) \<Rightarrow> (w1, Inl e)
      | (w1, Inr msg) \<Rightarrow>
          (let ret' = ret @ [msg]; n_remaining = n_messages - idx in
           if n_remaining > 0 then
             (case send tr w1 (remaining_query n_remaining) of
                (w2, Inl e) \<Rightarrow> (w2, Inl e)
              | (w2, Inr query) \<Rightarrow>
                  (case wait_for tr w2 (more_predicate ctx) of
                     (w3, Inl e) \<Rightarrow>
                       if e = TimeoutError then
                         (case suppress_HTTPException (delete tr w3 query) of
                            (w4, Some e') \<Rightarrow> (w4, Inl e')
                          | (w4, None) \<Rightarrow> (w4, Inr ret'))
                       else (w3, Inl e)
                   | (w3, Inr resp) \<Rightarrow>
                       (case after_reply tr w3 query resp of
                          (w4, Some e') \<Rightarrow> (w4, Inl e')
                        | (w4, None) \<Rightarrow> send_loop tr ctx box_lang n_messages (idx + 1) rest ret' w4)))
           else send_loop tr ctx box_lang n_messages (idx + 1) rest ret' w1))"

text \<open>
  \<open>send_interactive\<close> takes any iterable and starts with \<open>messages = tuple(messages)\<close>.
  An iterable is given by what running it to its end produces: the items, then its normal
  end or the exception it raises; \<open>None\<close> is an iterable that never ends, and then
  neither does the call. The default timeout of the source is left to the transport, whose
  \<open>arriving\<close> lists the messages that come before the deadline.
\<close>

type_synonym 'a iterable = "('a list \<times> exn option) option"

definition send_interactive ::
  "transport \<Rightarrow> Context \<Rightarrow> string iterable \<Rightarrow> string option \<Rightarrow> world
     \<Rightarrow> (world \<times> (exn + nat list)) option" where
  "send_interactive tr ctx messages box_lang w =
     (case messages of
        None \<Rightarrow> None
      | Some (pages, Some e) \<Rightarrow> Some (w, Inl e)
      | Some (pages, None) \<Rightarrow> Some (send_loop tr ctx box_lang (length pages) 1 pages [] w))"

text \<open>
  \<open>tick\<close>: without the permission a \<open>RuntimeError\<close> is raised and caught at once; a
  \<open>RuntimeError\<close> or \<open>HTTPException\<close> from the reaction gives \<open>False\<close>.
\<close>

definition tick :: "transport \<Rightarrow> Context \<Rightarrow> world \<Rightarrow> world \<times> (exn + bool)" where
  "tick tr ctx w =
     (if \<not> add_reactions ctx then (w, Inr False)
      else (case add_reaction tr w of
              (w1, Inl e) \<Rightarrow>
                if e = RuntimeError \<or> is_HTTPException e then (w1, Inr False) else (w1, Inl e)
            | (w1, Inr _) \<Rightarrow> (w1, Inr True)))"

section \<open>The cog\<close>

subsection \<open>The execution engine\<close>

text \<open>
  Compiling and running code is Python's own machinery (\<open>compile\<close>, \<open>eval\<close>, \<open>exec\<close>,
  \<open>types.FunctionType\<close>, \<open>str\<close>, \<open>traceback.format_exc\<close>, \<open>textwrap.indent\<close>), not code of
  the cog. It is a parameter, the \<open>host\<close>:
  \<^item> \<open>compile\<close> is \<open>async_compile(source, filename, mode)\<close> and gives a code object or
    raises;
  \<^item> \<open>execute\<close> runs a code object with an environment as its globals (\<open>eval\<close>, \<open>exec\<close>
    or \<open>types.FunctionType(code, env)()\<close>) and gives the environment afterwards, the text
    written to standard output, and the value or the exception;
  \<^item> \<open>call_func\<close> is \<open>await func()\<close> for the function that \<open>exec\<close> has defined;
  \<^item> \<open>str_of\<close> is \<open>str\<close> on a value, \<open>exc_str\<close> is \<open>str\<close> on an exception and
    \<open>format_exc\<close> the traceback text of the exception being handled.
  Executed code is taken not to reach into the cog object itself: it acts on its
  environment only.
\<close>

datatype cmode = EvalMode | ExecMode

datatype code = Code cmode string

datatype binding = Value val | Ctx Context | Msg message | Module string | Builtins
  | Function code

type_synonym env = "string \<rightharpoonup> binding"

record host =
  compile :: "string \<Rightarrow> cmode \<Rightarrow> exn + code"
  execute :: "code \<Rightarrow> env \<Rightarrow> env \<times> string \<times> outcome"
  call_func :: "binding \<Rightarrow> string \<times> outcome"
  str_of :: "val \<Rightarrow> string"
  exc_str :: "exn \<Rightarrow> string"
  format_exc :: "exn \<Rightarrow> string"
  indent :: "string \<Rightarrow> string \<Rightarrow> string"

text \<open>\<open>type(e).__name__\<close>.\<close>

fun type_name :: "exn \<Rightarrow> string" where
  "type_name (SyntaxError name _ _ _) = name"
| "type_name ValueError = ''ValueError''"
| "type_name KeyError = ''KeyError''"
| "type_name AttributeError = ''AttributeError''"
| "type_name RuntimeError = ''RuntimeError''"
| "type_name TimeoutError = ''TimeoutError''"
| "type_name HTTPException = ''HTTPException''"
| "type_name Forbidden = ''Forbidden''"
| "type_name (OtherException name) = name"
| "type_name (NonException name) = name"

subsection \<open>The state of the cog and the environment it builds\<close>

text \<open>
  The three attributes set in \<open>__init__\<close>: \<open>_last_result\<close>, \<open>sessions\<close> (channel id to
  running flag) and \<open>env_extensions\<close> (name to provider, in insertion order).
\<close>

record cog =
  last_result :: val
  sessions :: "nat \<rightharpoonup> bool"
  env_extensions :: "(string \<times> (Context \<Rightarrow> outcome)) list"

definition base_environment :: "cog \<Rightarrow> Context \<Rightarrow> env" where
  "base_environment self ctx =
     [''bot'' \<mapsto> Value (bot ctx),
      ''ctx'' \<mapsto> Ctx ctx,
      ''channel'' \<mapsto> Value (channel ctx),
      ''author'' \<mapsto> Value (author ctx),
      ''guild'' \<mapsto> Value (guild ctx),
      ''message'' \<mapsto> Msg (message ctx),
      ''asyncio'' \<mapsto> Module ''asyncio'',
      ''aiohttp'' \<mapsto> Module ''aiohttp'',
      ''discord'' \<mapsto> Module ''discord'',
      ''commands'' \<mapsto> Module ''commands'',
      ''_'' \<mapsto> Value (last_result self),
      ''__name__'' \<mapsto> Value (VStr ''__main__'')]"

text \<open>
  The loop over \<open>self.env_extensions.items()\<close>: the provider is called with the context;
  what it returns is bound to its name; an exception it raises is bound to its name when
  it is an \<open>Exception\<close> (\<open>except Exception as e\<close>), and escapes otherwise.
\<close>

fun extend_environment ::
  "Context \<Rightarrow> (string \<times> (Context \<Rightarrow> outcome)) list \<Rightarrow> env \<Rightarrow> exn + env" where
  "extend_environment ctx [] env = Inr env"
| "extend_environment ctx ((name, value) # rest) env =
     (case value ctx of
        Return v \<Rightarrow> extend_environment ctx rest (env(name \<mapsto> Value v))
      | Raise e \<Rightarrow>
          if is_Exception e then extend_environment ctx rest (env(name \<mapsto> Value (VExc e)))
          else Inl e)"

definition get_environment :: "cog \<Rightarrow> Context \<Rightarrow> exn + env" where
  "get_environment self ctx =
     extend_environment ctx (env_extensions self) (base_environment self ctx)"

subsection \<open>Formatting\<close>

definition get_pages :: "string \<Rightarrow> string iterable" where
  "get_pages msg = pagify msg [''\<newline>'', '' ''] True 10 2000"

text \<open>
  \<open>get_syntax_error\<close>. The format \<open>{1:>{0.offset}}\<close> right-aligns the caret in a field
  as wide as the offset. The function is only ever called with a \<open>SyntaxError\<close>; any
  other exception has no \<open>text\<close> attribute.
\<close>

fun get_syntax_error :: "exn \<Rightarrow> string iterable" where
  "get_syntax_error (SyntaxError name None offset msg) = get_pages (name @ '': '' @ msg)"
| "get_syntax_error (SyntaxError name (Some text) offset msg) =
     get_pages (text @ ''\<newline>'' @ replicate (offset - 1) CHR '' '' @ ''^'' @ ''\<newline>''
                  @ name @ '': '' @ msg)"
| "get_syntax_error _ = Some ([], Some AttributeError)"

subsection \<open>How a command ends\<close>

text \<open>
  A command handler returns, lets an exception escape, or never comes back (\<open>Hangs\<close>).
  \<open>Continue\<close> is used for the body of the session loop only: the loop goes on to wait for
  the next message.
\<close>

datatype status = Continue | Returned | Raised exn | Hangs

definition ended :: "(world \<times> (exn + 'a)) option \<Rightarrow> world \<Rightarrow> world \<times> status" where
  "ended r w =
     (case r of
        None \<Rightarrow> (w, Hangs)
      | Some (w1, Inl e) \<Rightarrow> (w1, Raised e)
      | Some (w1, Inr _) \<Rightarrow> (w1, Returned))"

subsection \<open>\<open>debug\<close>\<close>

text \<open>
  The \<open>try\<close> block of \<open>debug\<close>: compile as an expression, evaluate, resolve awaitables.
\<close>

definition debug_try :: "host \<Rightarrow> env \<Rightarrow> string \<Rightarrow> outcome" where
  "debug_try h env code =
     (case compile h code EvalMode of
        Inl e \<Rightarrow> Raise e
      | Inr compiled \<Rightarrow>
          (case execute h compiled env of
             (_, _, Raise e) \<Rightarrow> Raise e
           | (_, _, Return v) \<Rightarrow> maybe_await v))"

definition debug ::
  "host \<Rightarrow> transport \<Rightarrow> cog \<Rightarrow> Context \<Rightarrow> string \<Rightarrow> world \<Rightarrow> cog \<times> world \<times> status" where
  "debug h tr self ctx code w =
     (case get_environment self ctx of
        Inl e \<Rightarrow> (self, w, Raised e)
      | Inr env \<Rightarrow>
          (case debug_try h env (cleanup_code code) of
             Raise e \<Rightarrow>
               if is_SyntaxError e then
                 (self, ended (send_interactive tr ctx (get_syntax_error e) (Some ''py'') w) w)
               else if is_Exception e then
                 (self, ended (send_interactive tr ctx
                                 (get_pages (type_name e @ '': '' @ exc_str h e)) (Some ''py'') w) w)
               else (self, w, Raised e)
           | Return result \<Rightarrow>
               (let self' = self\<lparr>last_result := result\<rparr>;
                    result' = sanitize_output (token ctx) (str_of h result)
                in case tick tr ctx w of
                     (w1, Inl e) \<Rightarrow> (self', w1, Raised e)
                   | (w1, Inr _) \<Rightarrow>
                       (self', ended (send_interactive tr ctx (get_pages result') (Some ''py'') w1)
                                 w1))))"

subsection \<open>\<open>eval\<close>\<close>

text \<open>
  The second \<open>try\<close> of \<open>_eval\<close> with its bare \<open>except\<close> and its \<open>else\<close>: the result (still
  \<open>None\<close> when the call raised), the text to show, and the exception that escapes from
  \<open>tick\<close> in the \<open>else\<close> branch, if any.
\<close>

definition eval_call ::
  "host \<Rightarrow> transport \<Rightarrow> Context \<Rightarrow> binding \<Rightarrow> world \<Rightarrow> world \<times> (exn + val \<times> string)" where
  "eval_call h tr ctx func w =
     (case call_func h func of
        (out, Raise e) \<Rightarrow> (w, Inr (VNone, out @ format_exc h e))
      | (out, Return result) \<Rightarrow>
          (case tick tr ctx w of
             (w1, Inl e) \<Rightarrow> (w1, Inl e)
           | (w1, Inr _) \<Rightarrow> (w1, Inr (result, out))))"

definition eval_cmd ::
  "host \<Rightarrow> transport \<Rightarrow> cog \<Rightarrow> Context \<Rightarrow> string \<Rightarrow> world \<Rightarrow> cog \<times> world \<times> status" where
  "eval_cmd h tr self ctx body w =
     (case get_environment self ctx of
        Inl e \<Rightarrow> (self, w, Raised e)
      | Inr env \<Rightarrow>
          (let to_compile = ''async def func():\<newline>'' @ indent h (cleanup_code body) ''  '';
               defined = (case compile h to_compile ExecMode of
                            Inl e \<Rightarrow> Inl e
                          | Inr compiled \<Rightarrow>
                              (case execute h compiled env of
                                 (_, _, Raise e) \<Rightarrow> Inl e
                               | (env1, _, Return _) \<Rightarrow> Inr env1))
           in case defined of
                Inl e \<Rightarrow>
                  if is_SyntaxError e then
                    (self, ended (send_interactive tr ctx (get_syntax_error e) (Some ''py'') w) w)
                  else (self, w, Raised e)
              | Inr env1 \<Rightarrow>
                  (case env1 ''func'' of
                     None \<Rightarrow> (self, w, Raised KeyError)
                   | Some func \<Rightarrow>
                       (case eval_call h tr ctx func w of
                          (w1, Inl e) \<Rightarrow> (self, w1, Raised e)
                        | (w1, Inr (result, printed)) \<Rightarrow>
                            (let self' = (if result \<noteq> VNone then self\<lparr>last_result := result\<rparr>
                                          else self);
                                 msg = (if result \<noteq> VNone then printed @ str_of h result
                                        else printed)
                             in (self', ended (send_interactive tr ctx
                                                 (get_pages (sanitize_output (token ctx) msg))
                                                 (Some ''py'') w1) w1))))))"

subsection \<open>\<open>repl\<close>: opening a session\<close>

text \<open>
  The part of \<open>repl\<close> before its loop. It ends the command (\<open>Inl\<close>) when the channel
  already has a session or when an exception escapes; otherwise it registers the session
  as running and enters the loop with the environment it has built (\<open>Inr\<close>).
\<close>

definition repl_open ::
  "transport \<Rightarrow> cog \<Rightarrow> Context \<Rightarrow> world \<Rightarrow> cog \<times> world \<times> (status + env)" where
  "repl_open tr self ctx w =
     (case sessions self (channel_id ctx) of
        Some running \<Rightarrow>
          (let (w1, r) = send tr w
                 (if running
                  then ''Already running a REPL session in this channel. Exit it with `quit`.''
                  else ''Already running a REPL session in this channel.''
                         @ '' Resume the REPL with `'' @ prefix ctx @ ''repl resume`.'')
           in (self, w1, Inl (case r of Inl e \<Rightarrow> Raised e | Inr _ \<Rightarrow> Returned)))
      | None \<Rightarrow>
          (case get_environment self ctx of
             Inl e \<Rightarrow> (self, w, Inl (Raised e))
           | Inr env0 \<Rightarrow>
               (let env = env0(''__builtins__'' \<mapsto> Builtins, ''_'' \<mapsto> Value VNone);
                    self' = self\<lparr>sessions := (sessions self)(channel_id ctx \<mapsto> True)\<rparr>
                in case send tr w
                          (''Enter code to execute or evaluate. `exit()` or `quit` to exit.''
                             @ '' `'' @ prefix ctx @ ''repl pause` to pause.'') of
                     (w1, Inl e) \<Rightarrow> (self', w1, Inl (Raised e))
                   | (w1, Inr _) \<Rightarrow> (self', w1, Inr env))))"

subsection \<open>\<open>repl\<close>: one pass through the loop\<close>

text \<open>The check that \<open>wait_for\<close> applies to every dispatched message.\<close>

definition repl_predicate :: "Context \<Rightarrow> message \<Rightarrow> bool" where
  "repl_predicate ctx m =
     (author_id ctx = m_author_id m \<and> channel_id ctx = m_channel_id m
      \<and> startswith (content m) ''`'')"

text \<open>
  The choice of the executor: a single line is first compiled as an
  expression; a \<open>SyntaxError\<close> there is passed over. The result is the compiled expression
  when \<open>executor\<close> is \<open>eval\<close>, \<open>None\<close> when \<open>executor\<close> is still \<open>None\<close>, or the
  exception that escapes.
\<close>

definition repl_select :: "host \<Rightarrow> string \<Rightarrow> exn + code option" where
  "repl_select h cleaned =
     (if count_list cleaned CHR ''\<newline>'' = 0 then
        (case compile h cleaned EvalMode of
           Inl e \<Rightarrow> if is_SyntaxError e then Inr None else Inl e
         | Inr code \<Rightarrow> Inr (Some code))
      else Inr None)"

text \<open>
  Running the compiled input with the standard output captured, under the bare
  \<open>except\<close>: the environment afterwards and the text to show. Only a result that is not
  \<open>None\<close> is stored under \<open>_\<close> in the environment of the session.
\<close>

definition repl_execute :: "host \<Rightarrow> env \<Rightarrow> code \<Rightarrow> env \<times> string" where
  "repl_execute h env code =
     (case execute h code env of
        (env1, printed, Raise e) \<Rightarrow> (env1, printed @ format_exc h e)
      | (env1, printed, Return r) \<Rightarrow>
          (case maybe_await r of
             Raise e \<Rightarrow> (env1, printed @ format_exc h e)
           | Return result \<Rightarrow>
               if result \<noteq> VNone then (env1(''_'' \<mapsto> Value result), printed @ str_of h result)
               else if printed \<noteq> [] then (env1, printed)
               else (env1, [])))"

text \<open>
  Sending the pages at the end of a pass: \<open>Forbidden\<close> is passed over, any other
  \<open>HTTPException\<close> is reported with one more \<open>send\<close>.
\<close>

definition repl_deliver ::
  "host \<Rightarrow> transport \<Rightarrow> Context \<Rightarrow> string \<Rightarrow> world \<Rightarrow> world \<times> status" where
  "repl_deliver h tr ctx msg w =
     (case send_interactive tr ctx (get_pages msg) (Some ''py'') w of
        None \<Rightarrow> (w, Hangs)
      | Some (w1, Inr _) \<Rightarrow> (w1, Continue)
      | Some (w1, Inl e) \<Rightarrow>
          if e = Forbidden then (w1, Continue)
          else if is_HTTPException e then
            (case send tr w1 (''Unexpected error: `'' @ exc_str h e @ ''`'') of
               (w2, Inl e') \<Rightarrow> (w2, Raised e')
             | (w2, Inr _) \<Rightarrow> (w2, Continue))
          else (w1, Raised e))"

text \<open>
  The body of \<open>while True\<close> for a message \<open>response\<close> that \<open>wait_for\<close> has returned, in
  the order of the source: the pause check, the clean-up, the quit check, the choice of
  the executor, the second compilation, the execution, the delivery.
\<close>

definition repl_body ::
  "host \<Rightarrow> transport \<Rightarrow> cog \<Rightarrow> Context \<Rightarrow> env \<Rightarrow> message \<Rightarrow> world
     \<Rightarrow> cog \<times> env \<times> world \<times> status" where
  "repl_body h tr self ctx env response w =
     (case sessions self (channel_id ctx) of
        None \<Rightarrow> (self, env, w, Raised KeyError)
      | Some running \<Rightarrow>
          if \<not> running then (self, env, w, Continue)
          else
            (let cleaned = cleanup_code (content response) in
             if cleaned \<in> set [''quit'', ''exit'', ''exit()''] then
               (case send tr w ''Exiting.'' of
                  (w1, Inl e) \<Rightarrow> (self, env, w1, Raised e)
                | (w1, Inr _) \<Rightarrow>
                    (self\<lparr>sessions := (sessions self)(channel_id ctx := None)\<rparr>, env, w1,
                     Returned))
             else
               (case repl_select h cleaned of
                  Inl e \<Rightarrow> (self, env, w, Raised e)
                | Inr (Some code) \<Rightarrow>
                    (let (env1, msg) = repl_execute h (env(''message'' \<mapsto> Msg response)) code;
                         (w1, st) = repl_deliver h tr ctx (sanitize_output (token ctx) msg) w
                     in (self, env1, w1, st))
                | Inr None \<Rightarrow>
                    (case compile h cleaned ExecMode of
                       Inl e \<Rightarrow>
                         if is_SyntaxError e then
                           (case send_interactive tr ctx (get_syntax_error e) (Some ''py'') w of
                              None \<Rightarrow> (self, env, w, Hangs)
                            | Some (w1, Inl e') \<Rightarrow> (self, env, w1, Raised e')
                            | Some (w1, Inr _) \<Rightarrow> (self, env, w1, Continue))
                         else (self, env, w, Raised e)
                     | Inr code \<Rightarrow>
                         (let (env1, msg) = repl_execute h (env(''message'' \<mapsto> Msg response)) code;
                              (w1, st) = repl_deliver h tr ctx (sanitize_output (token ctx) msg) w
                          in (self, env1, w1, st))))))"

subsection \<open>\<open>repl pause\<close>\<close>

definition pause ::
  "transport \<Rightarrow> cog \<Rightarrow> Context \<Rightarrow> bool option \<Rightarrow> world \<Rightarrow> cog \<times> world \<times> status" where
  "pause tr self ctx toggle w =
     (case sessions self (channel_id ctx) of
        None \<Rightarrow>
          (let (w1, r) = send tr w ''There is no currently running REPL session in this channel.''
           in (self, w1, case r of Inl e \<Rightarrow> Raised e | Inr _ \<Rightarrow> Returned))
      | Some running \<Rightarrow>
          (let toggle' = (case toggle of None \<Rightarrow> \<not> running | Some t \<Rightarrow> t);
               self' = self\<lparr>sessions := (sessions self)(channel_id ctx \<mapsto> toggle')\<rparr>;
               (w1, r) = send tr w
                 (if toggle' then ''The REPL session in this channel has been resumed.''
                  else ''The REPL session in this channel is now paused.'')
           in (self', w1, case r of Inl e \<Rightarrow> Raised e | Inr _ \<Rightarrow> Returned)))"

subsection \<open>The session loop\<close>

text \<open>
  The loop waits without a timeout, so it is run over what happens while it waits: a
  message is dispatched, or the pause command is invoked (in its own task, whose end does
  not concern the loop). A message that fails the check is not returned by \<open>wait_for\<close>.
  The loop ends when a pass returns, raises or hangs; when the inputs are used up it is
  still waiting, which is \<open>Continue\<close>.
\<close>

datatype input = Dispatched message | PauseInvoked Context "bool option"

fun repl_loop ::
  "host \<Rightarrow> transport \<Rightarrow> Context \<Rightarrow> input list \<Rightarrow> cog \<Rightarrow> env \<Rightarrow> world
     \<Rightarrow> cog \<times> env \<times> world \<times> status" where
  "repl_loop h tr ctx [] self env w = (self, env, w, Continue)"
| "repl_loop h tr ctx (PauseInvoked ctx' toggle # rest) self env w =
     (case pause tr self ctx' toggle w of
        (self1, w1, _) \<Rightarrow> repl_loop h tr ctx rest self1 env w1)"
| "repl_loop h tr ctx (Dispatched m # rest) self env w =
     (if repl_predicate ctx m then
        (case repl_body h tr self ctx env m w of
           (self1, env1, w1, Continue) \<Rightarrow> repl_loop h tr ctx rest self1 env1 w1
         | r \<Rightarrow> r)
      else repl_loop h tr ctx rest self env w)"

text \<open>The whole \<open>repl\<close> command over the inputs that follow its invocation.\<close>

definition repl ::
  "host \<Rightarrow> transport \<Rightarrow> cog \<Rightarrow> Context \<Rightarrow> input list \<Rightarrow> world \<Rightarrow> cog \<times> world \<times> status" where
  "repl h tr self ctx inputs w =
     (case repl_open tr self ctx w of
        (self1, w1, Inl st) \<Rightarrow> (self1, w1, st)
      | (self1, w1, Inr env) \<Rightarrow>
          (case repl_loop h tr ctx inputs self1 env w1 of
             (self2, _, w2, st) \<Rightarrow> (self2, w2, st)))"

section \<open>Concrete objects for the instances below\<close>

text \<open>
  An invocation by author 1 in channel 5; a channel on which every call succeeds and
  nothing arrives; a channel on which a \<open>more\<close> arrives from somebody else and deleting
  fails with \<open>Forbidden\<close>; and a toy engine: every source compiles; as an expression the source \<open>None\<close>
  evaluates to \<open>None\<close>, the source \<open>boom\<close> raises and any other source evaluates to
  itself as a string; executing statements defines \<open>func\<close>, whose call returns 7 for the
  body \<open>return 7\<close> and \<open>None\<close> otherwise.
\<close>

definition example_ctx :: Context where
  "example_ctx =
     \<lparr>author_id = 1, channel_id = 5, prefix = ''!'', token = ''ABC123'', add_reactions = True,
      bot = VObj ''bot'', channel = VObj ''channel'', author = VObj ''author'',
      guild = VObj ''guild'',
      message = \<lparr>m_author_id = 1, m_channel_id = 5, content = ''!repl''\<rparr>\<rparr>"

definition quiet_transport :: transport where
  "quiet_transport =
     \<lparr>send_outcome = (\<lambda>_. None), delete_outcome = (\<lambda>_. None),
      delete_messages_outcome = (\<lambda>_. None), add_reaction_outcome = (\<lambda>_. None),
      arriving = (\<lambda>_. [])\<rparr>"

definition stranger_transport :: transport where
  "stranger_transport =
     \<lparr>send_outcome = (\<lambda>_. None), delete_outcome = (\<lambda>_. Some Forbidden),
      delete_messages_outcome = (\<lambda>_. None), add_reaction_outcome = (\<lambda>_. None),
      arriving = (\<lambda>_. [\<lparr>m_author_id = 2, m_channel_id = 5, content = ''more''\<rparr>])\<rparr>"

definition toy_host :: host where
  "toy_host =
     \<lparr>compile = (\<lambda>source mode. Inr (Code mode source)),
      execute = (\<lambda>code env.
        case code of
          Code ExecMode source \<Rightarrow> (env(''func'' \<mapsto> Function code), [], Return VNone)
        | Code EvalMode source \<Rightarrow>
            (env, [],
             if source = ''None'' then Return VNone
             else if source = ''boom'' then Raise RuntimeError
             else Return (VStr source))),
      call_func = (\<lambda>func.
        case func of
          Function (Code mode source) \<Rightarrow>
            ([], if source = ''async def func():\<newline>  return 7'' then Return (VInt 7)
                 else Return VNone)
        | _ \<Rightarrow> ([], Raise (OtherException ''TypeError''))),
      str_of = (\<lambda>v. case v of VStr s \<Rightarrow> s | VInt i \<Rightarrow> ''7'' | _ \<Rightarrow> ''None''),
      exc_str = (\<lambda>e. []),
      format_exc = type_name,
      indent = (\<lambda>body pre. pre @ body)\<rparr>"

definition example_cog :: cog where
  "example_cog = \<lparr>last_result = VInt 1, sessions = Map.empty, env_extensions = []\<rparr>"



definition quit_message :: message where
  "quit_message = \<lparr>m_author_id = 1, m_channel_id = 5, content = ''`quit`''\<rparr>"


section \<open>Properties of the pager\<close>

subsection \<open>Where \<open>rfind\<close> and the split point can lie\<close>

lemma find_mem: "find P xs = Some x \<Longrightarrow> x \<in> set xs \<and> P x"
  by (induction xs) (auto split: if_splits)

lemma rfind_cases:
  assumes "rfind s d 1 lim = r"
  shows "r = - 1 \<or> (1 \<le> r \<and> r + int (length d) \<le> adjust_stop (length s) lim)"
proof (cases "adjust_stop (length s) lim - 1 < int (length d)")
  case True
  with assms show ?thesis by (simp add: rfind_def adjust_start_def Let_def)
next
  case False
  show ?thesis
  proof (cases "find (\<lambda>i. take (length d) (drop i s) = d)
                  (rev [nat 1 ..< Suc (nat (adjust_stop (length s) lim - int (length d)))])")
    case None
    with False assms show ?thesis by (simp add: rfind_def adjust_start_def Let_def)
  next
    case (Some i)
    from find_mem[OF Some] have "1 \<le> i" "int i \<le> adjust_stop (length s) lim - int (length d)"
      by auto
    moreover from False Some assms have "r = int i"
      by (simp add: rfind_def adjust_start_def Let_def)
    ultimately show ?thesis by simp
  qed
qed

lemma rfind_range:
  assumes "1 \<le> lim" "lim < int (length s)"
  shows "rfind s d 1 lim = - 1 \<or> (1 \<le> rfind s d 1 lim \<and> rfind s d 1 lim \<le> lim)"
  using rfind_cases[OF refl, of s d lim] assms by (auto simp: adjust_stop_def)

lemma rfind_none:
  assumes "lim \<le> 0" "lim = 0 \<longrightarrow> s \<noteq> []"
  shows "rfind s d 1 lim = - 1 \<or> (1 \<le> rfind s d 1 lim \<and> rfind s d 1 lim < int (length s))"
  using rfind_cases[OF refl, of s d lim] assms by (auto simp: adjust_stop_def split: if_splits)

lemma rfind_zero: "s \<noteq> [] \<Longrightarrow> rfind s d 1 0 = - 1"
  by (simp add: rfind_def adjust_stop_def adjust_start_def)

lemma fold_max_mem: "fold max xs (x::int) \<in> set (x # xs)"
  by (induction xs arbitrary: x) (auto simp: max_def)

lemma closest_delim_mem:
  assumes "closest_delim pr found = Inr c"
  shows "c = - 1 \<or> c \<in> set found"
proof (cases pr)
  case True
  with assms show ?thesis
    by (auto split: option.splits dest: find_mem)
next
  case False
  show ?thesis
  proof (cases found)
    case Nil
    with False assms show ?thesis by simp
  next
    case (Cons x xs)
    with False assms fold_max_mem[of xs x] show ?thesis by auto
  qed
qed

lemma closest_delim_ok:
  "delims \<noteq> [] \<or> pr \<Longrightarrow> \<exists>c. closest_delim pr (map f delims) = Inr c"
  by (cases pr; cases delims) auto

lemma split_point_range:
  assumes "1 \<le> lim" "lim < int (length t)"
    and "closest_delim pr (map (\<lambda>d. rfind t d 1 lim) D) = Inr c"
  shows "1 \<le> (if c \<noteq> - 1 then c else lim) \<and> (if c \<noteq> - 1 then c else lim) \<le> lim"
proof (cases "c = - 1")
  case True
  with assms show ?thesis by simp
next
  case False
  with closest_delim_mem[OF assms(3)] obtain d where "c = rfind t d 1 lim" by auto
  with False rfind_range[OF assms(1,2), of d] show ?thesis by auto
qed

lemma slice_to_pos: "0 \<le> k \<Longrightarrow> k \<le> int (length s) \<Longrightarrow> slice_to s k = take (nat k) s"
  by (simp add: slice_to_def slice_index_def)

lemma slice_from_pos: "0 \<le> k \<Longrightarrow> k \<le> int (length s) \<Longrightarrow> slice_from s k = drop (nat k) s"
  by (simp add: slice_from_def slice_index_def)

lemma pagify_loop_pages:
  assumes "1 \<le> lim" "D \<noteq> [] \<or> pr"
  shows "\<exists>segs. pagify_loop D pr lim acc t = Some (acc @ filter (\<lambda>p. strip p \<noteq> []) segs, None)
           \<and> concat segs = t \<and> (\<forall>p\<in>set segs. int (length p) \<le> lim)"
proof (induction "length t" arbitrary: t acc rule: less_induct)
  case less
  show ?case
  proof (cases "lim < int (length t)")
    case False
    then have "pagify_loop D pr lim acc t
                 = Some (acc @ filter (\<lambda>p. strip p \<noteq> []) [t], None)"
      by (subst pagify_loop.simps) simp
    moreover have "concat [t] = t" by simp
    moreover from False have "\<forall>p\<in>set [t]. int (length p) \<le> lim" by simp
    ultimately show ?thesis by blast
  next
    case True
    from closest_delim_ok[OF assms(2)] obtain c
      where c: "closest_delim pr (map (\<lambda>d. rfind t d 1 lim) D) = Inr c" by blast
    define k where "k = (if c \<noteq> - 1 then c else lim)"
    from split_point_range[OF assms(1) True c] have k: "1 \<le> k" "k \<le> lim"
      by (simp_all add: k_def)
    with True have kt: "0 \<le> k" "k \<le> int (length t)" by simp_all
    have to_send: "slice_to t k = take (nat k) t" and rest: "slice_from t k = drop (nat k) t"
      using kt by (simp_all add: slice_to_pos slice_from_pos)
    have step: "pagify_loop D pr lim acc t
                  = pagify_loop D pr lim
                      (if strip (take (nat k) t) \<noteq> [] then acc @ [take (nat k) t] else acc)
                      (drop (nat k) t)"
      using True c to_send rest
      by (subst pagify_loop.simps) (simp add: k_def Let_def)
    have "length (drop (nat k) t) < length t" using k True by simp
    from less[OF this] obtain segs where
      segs: "pagify_loop D pr lim
               (if strip (take (nat k) t) \<noteq> [] then acc @ [take (nat k) t] else acc)
               (drop (nat k) t)
             = Some ((if strip (take (nat k) t) \<noteq> [] then acc @ [take (nat k) t] else acc)
                      @ filter (\<lambda>p. strip p \<noteq> []) segs, None)"
        "concat segs = drop (nat k) t" "\<forall>p\<in>set segs. int (length p) \<le> lim"
      by blast
    have "pagify_loop D pr lim acc t
            = Some (acc @ filter (\<lambda>p. strip p \<noteq> []) (take (nat k) t # segs), None)"
      using step segs(1) by simp
    moreover have "concat (take (nat k) t # segs) = t" using segs(2) by simp
    moreover have "\<forall>p\<in>set (take (nat k) t # segs). int (length p) \<le> lim"
      using segs(3) k by auto
    ultimately show ?thesis by blast
  qed
qed

lemma pagify_loop_returns:
  assumes "1 \<le> lim"
  shows "\<exists>r. pagify_loop D pr lim acc t = Some r"
proof (cases "D \<noteq> [] \<or> pr")
  case True
  from pagify_loop_pages[OF assms True, of acc t] show ?thesis by blast
next
  case False
  then have "D = []" "\<not> pr" by simp_all
  then show ?thesis by (subst pagify_loop.simps) simp
qed

lemma pagify_loop_diverges:
  assumes "lim < 1" "D \<noteq> [] \<or> pr" "lim = 0 \<longrightarrow> t \<noteq> []"
  shows "pagify_loop D pr lim acc t = None"
proof (rule ccontr)
  assume "pagify_loop D pr lim acc t \<noteq> None"
  then obtain y where y: "pagify_loop D pr lim acc t = Some y" by blast
  have "lim < 1 \<longrightarrow> (D \<noteq> [] \<or> pr) \<longrightarrow> (lim = 0 \<longrightarrow> t \<noteq> []) \<longrightarrow> False"
  proof (induction rule: pagify_loop.raw_induct[OF _ y])
    case (1 loop D pr lim acc t y)
    show ?case
    proof (intro impI)
      assume lim: "lim < 1" and D: "D \<noteq> [] \<or> pr" and t: "lim = 0 \<longrightarrow> t \<noteq> []"
      from lim t have gt: "lim < int (length t)" by (cases "lim = 0") auto
      from closest_delim_ok[OF D] obtain c
        where c: "closest_delim pr (map (\<lambda>d. rfind t d 1 lim) D) = Inr c" by blast
      define k where "k = (if c \<noteq> - 1 then c else lim)"
      have next_ok: "lim = 0 \<longrightarrow> slice_from t k \<noteq> []"
      proof
        assume z: "lim = 0"
        with t have ne: "t \<noteq> []" by simp
        from closest_delim_mem[OF c] rfind_zero[OF ne] z have "c = - 1" by auto
        with z have "k = 0" by (simp add: k_def)
        with ne show "slice_from t k \<noteq> []" by (simp add: slice_from_def slice_index_def)
      qed
      from 1(2) gt c have "loop D pr lim
              (if 0 < length (strip (slice_to t k)) then acc @ [slice_to t k] else acc)
              (slice_from t k) = Some y"
        by (simp add: Let_def k_def split: if_splits)
      from 1(1)[OF this] lim D next_ok show False by blast
    qed
  qed
  with assms show False by blast
qed

subsection \<open>The claims about \<open>pagify\<close>\<close>

text \<open>
  Whenever the effective limit is at least 1 and the loop cannot reach \<open>max\<close> of an empty
  sequence (the delimiter list is non-empty, or \<open>priority\<close> is on, or the text is no
  longer than the limit), \<open>pagify\<close> ends normally; the text is cut into consecutive
  segments, left to right, each of raw length at most the effective limit, which
  concatenated give the text back, and the pages yielded are those segments, in order,
  leaving out only segments that are blank after \<open>strip\<close>.
\<close>

theorem pagify_pages:
  assumes "1 \<le> L - S" and "D \<noteq> [] \<or> priority \<or> int (length T) \<le> L - S"
  shows "\<exists>segs. pagify T D priority S L = Some (filter (\<lambda>p. strip p \<noteq> []) segs, None)
           \<and> concat segs = T \<and> (\<forall>p\<in>set segs. int (length p) \<le> L - S)"
proof (cases "D \<noteq> [] \<or> priority")
  case True
  from pagify_loop_pages[OF assms(1) True, of "[]" T] show ?thesis
    by (simp add: pagify_def)
next
  case False
  with assms(2) have short: "\<not> L - S < int (length T)" by simp
  then have "pagify T D priority S L = Some (filter (\<lambda>p. strip p \<noteq> []) [T], None)"
    unfolding pagify_def by (subst pagify_loop.simps) simp
  moreover have "concat [T] = T" by simp
  moreover from short have "\<forall>p\<in>set [T]. int (length p) \<le> L - S" by simp
  ultimately show ?thesis by blast
qed

theorem pagify_pages_witness:
  "\<exists>segs. pagify ''abcdefghij'' ['' ''] False 0 5
             = Some (filter (\<lambda>p. strip p \<noteq> []) segs, None)
         \<and> concat segs = ''abcdefghij'' \<and> (\<forall>p\<in>set segs. int (length p) \<le> 5 - 0)"
  using pagify_pages[of 5 0 "['' '']" False "''abcdefghij''"] by simp

text \<open>
  C1 (the code departs from the claim). The claim covers every delimiter list. With the
  empty list, without \<open>priority\<close>, and a text longer than the limit, \<open>max\<close> of an empty
  sequence raises \<open>ValueError\<close> in the first iteration: nothing is yielded and the text
  \<open>ab\<close> is lost. On the same input the \<open>priority\<close> branch, whose \<open>next\<close> has the default
  \<open>-1\<close>, falls back to the hard cut and yields \<open>a\<close> and \<open>b\<close>; and with the same empty list
  a text within the limit is yielded whole.
\<close>

theorem pagify_empty_delims_raises:
  "(1::int) \<le> 1 - 0
   \<and> pagify ''ab'' [] False 0 1 = Some ([], Some ValueError)
   \<and> pagify ''ab'' [] True 0 1 = Some ([''a'', ''b''], None)
   \<and> pagify ''a'' [] False 0 1 = Some ([''a''], None)"
proof -
  have sa: "strip ''a'' = ''a''" and sb: "strip ''b'' = ''b''"
    by (simp_all add: strip_def strip_chars_def is_space_def)
  have raises: "pagify_loop [] False 1 [] ''ab'' = Some ([], Some ValueError)"
    by (subst pagify_loop.simps) simp
  have "pagify_loop [] True 1 [] ''ab'' = pagify_loop [] True 1 [''a''] ''b''"
    by (subst pagify_loop.simps) (simp add: sa slice_to_def slice_from_def slice_index_def)
  also have "\<dots> = Some ([''a'', ''b''], None)"
    by (subst pagify_loop.simps) (simp add: sb)
  finally have cuts: "pagify_loop [] True 1 [] ''ab'' = Some ([''a'', ''b''], None)" .
  have whole: "pagify_loop [] False 1 [] ''a'' = Some ([''a''], None)"
    by (subst pagify_loop.simps) (simp add: sa)
  from raises cuts whole show ?thesis
    by (simp add: pagify_def)
qed

lemma pagify_loop_three_lines:
  "pagify_loop [''\<newline>''] True 12 [] ''line1\<newline>line2\<newline>line3''
     = Some ([''line1\<newline>line2'', ''\<newline>line3''], None)"
proof -
  have r: "rfind ''line1\<newline>line2\<newline>line3'' ''\<newline>'' 1 12 = 11"
    by (simp add: rfind_def adjust_stop_def adjust_start_def upt_rec)
  have s1: "strip ''line1\<newline>line2'' = ''line1\<newline>line2''"
    by (simp add: strip_def strip_chars_def is_space_def)
  have s2: "strip ''\<newline>line3'' = ''line3''"
    by (simp add: strip_def strip_chars_def is_space_def)
  have "pagify_loop [''\<newline>''] True 12 [] ''line1\<newline>line2\<newline>line3''
          = pagify_loop [''\<newline>''] True 12 [''line1\<newline>line2''] ''\<newline>line3''"
    by (subst pagify_loop.simps) (simp add: r s1 slice_to_def slice_from_def slice_index_def)
  also have "\<dots> = Some ([''line1\<newline>line2'', ''\<newline>line3''], None)"
    by (subst pagify_loop.simps) (simp add: s2)
  finally show ?thesis .
qed

text \<open>
  C4 (as amended). For every \<open>S\<close>, paging the three lines with the newline as only
  delimiter, page length \<open>12 + S\<close>, \<open>shorten_by = S\<close> and \<open>priority\<close> yields the two pages
  \<open>line1\<newline>line2\<close> and \<open>\<newline>line3\<close>: the split is at the last newline in the index
  range from 1 up to 12, and the newline stays at the front of the remainder.
\<close>

theorem pagify_three_lines:
  "pagify ''line1\<newline>line2\<newline>line3'' [''\<newline>''] True S (12 + S)
     = Some ([''line1\<newline>line2'', ''\<newline>line3''], None)"
  by (simp add: pagify_def pagify_loop_three_lines)

text \<open>
  C4 fails as stated: the pages are not \<open>line1\<newline>\<close>, \<open>line2\<newline>\<close>, \<open>line3\<close>.
\<close>

theorem pagify_three_lines_counterexample:
  "pagify ''line1\<newline>line2\<newline>line3'' [''\<newline>''] True 0 (12 + 0)
     \<noteq> Some ([''line1\<newline>'', ''line2\<newline>'', ''line3''], None)"
  by (simp add: pagify_def pagify_loop_three_lines)

text \<open>
  C5 (as amended). \<open>pagify\<close> neither rejects nor clamps an effective limit below 1. The
  generator comes to an end exactly in these cases: the effective limit is at least 1; or
  the delimiter list is empty and \<open>priority\<close> is off (the loop then raises \<open>ValueError\<close>
  at once, or is never entered); or the effective limit is 0 and the text is empty. In
  every other case it never yields its last page.
\<close>

theorem pagify_ends_iff:
  "(\<exists>r. pagify T D priority S L = Some r)
     \<longleftrightarrow> (1 \<le> L - S \<or> (D = [] \<and> \<not> priority) \<or> (L - S = 0 \<and> T = []))"
proof (cases "1 \<le> L - S")
  case True
  with pagify_loop_returns[OF True, of D priority "[]" T] show ?thesis
    by (simp add: pagify_def)
next
  case False
  show ?thesis
  proof (cases "D = [] \<and> \<not> priority")
    case True
    then have "\<exists>r. pagify_loop D priority (L - S) [] T = Some r"
      by (subst pagify_loop.simps) simp
    with True show ?thesis by (simp add: pagify_def)
  next
    case nonempty: False
    show ?thesis
    proof (cases "L - S = 0 \<and> T = []")
      case True
      then have "\<exists>r. pagify_loop D priority (L - S) [] T = Some r"
        by (subst pagify_loop.simps) simp
      with True show ?thesis by (simp add: pagify_def)
    next
      case False
      with \<open>\<not> 1 \<le> L - S\<close> nonempty
      have "pagify_loop D priority (L - S) [] T = None"
        by (intro pagify_loop_diverges) auto
      with False \<open>\<not> 1 \<le> L - S\<close> nonempty show ?thesis
        by (simp add: pagify_def)
    qed
  qed
qed

theorem pagify_ends_iff_witness:
  "\<exists>r. pagify ''a'' [''\<newline>''] False 0 1 = Some r"
  using pagify_ends_iff[of "''a''" "[''\<newline>'']" False 0 1] by simp

text \<open>
  C5 fails as stated: with effective limit 0 the one-character text is never consumed, and
  the generator does not end.
\<close>

theorem pagify_zero_limit_counterexample:
  "pagify ''a'' [''\<newline>''] False 0 0 = None"
  unfolding pagify_def by (rule pagify_loop_diverges) simp_all

section \<open>Properties of the helpers\<close>

text \<open>
  C3 (the code departs from the claim). \<open>sanitize_output\<close> is meant to replace every
  occurrence of the token whatever its letter case, and passes \<open>re.I\<close> for that; the flag
  lands in the \<open>count\<close> parameter. So the match is case-sensitive and at most two
  occurrences are replaced: the claim's own example comes out as claimed, a token written
  in another case is left in the output, and so is a third occurrence.
\<close>

theorem sanitize_output_misses:
  "sanitize_output ''ABC123'' ''token=ABC123 rest'' = ''token=[EXPUNGED] rest''
   \<and> sanitize_output ''ABC123'' ''token=abc123 rest'' = ''token=abc123 rest''
   \<and> sanitize_output ''ABC123'' ''ABC123 ABC123 ABC123'' = ''[EXPUNGED] [EXPUNGED] ABC123''"
  by (simp add: sanitize_output_def re_sub_escaped_def re_I_def)

text \<open>
  C8. \<open>maybe_await\<close> resolves at most twice. A value that is not awaitable is returned
  unchanged. An awaitable is awaited; if that raises, the exception is raised; if the
  result is not awaitable, it is returned; if it is awaitable again, it is awaited once
  more and whatever that gives is the outcome, also when it is still awaitable.
\<close>

theorem maybe_await_two_steps:
  "(\<not> isawaitable v \<longrightarrow> maybe_await v = Return v)
   \<and> (\<not> isawaitable v \<longrightarrow> maybe_await (VAwaitable (Return v)) = Return v)
   \<and> maybe_await (VAwaitable (Raise e)) = Raise e
   \<and> maybe_await (VAwaitable (Return (VAwaitable out))) = out
   \<and> maybe_await (VAwaitable (Return (VAwaitable (Return (VAwaitable out)))))
       = Return (VAwaitable out)"
proof -
  have range: "[0..<2] = [0, 1]" by (simp add: upt_rec)
  show ?thesis
    by (cases out) (simp_all add: maybe_await_def range)
qed

theorem maybe_await_two_steps_witness:
  "\<not> isawaitable (VInt 7) \<and> maybe_await (VInt 7) = Return (VInt 7)
   \<and> maybe_await (VAwaitable (Return (VInt 7))) = Return (VInt 7)
   \<and> maybe_await (VAwaitable (Return (VAwaitable (Return (VAwaitable (Return VNone))))))
       = Return (VAwaitable (Return VNone))"
  using maybe_await_two_steps[of "VInt 7" e "Return VNone" for e] by simp

section \<open>Properties of the interactive delivery\<close>

text \<open>
  C6. \<open>send_interactive\<close> is called with three pages; the first page and the query after
  it are sent, and no message that arrives before the timeout passes the check (same
  author, same channel, content \<open>more\<close> in any case). Then exactly one page has been
  sent, followed by the query; the query's deletion is attempted and a failure of the
  channel there (\<open>HTTPException\<close>) is ignored; pages two and three are not sent; and the
  call returns normally, with the handle of the one sent page.
\<close>

theorem send_interactive_timeout:
  assumes s1: "send_outcome tr (length w) = None"
    and s2: "send_outcome tr (Suc (length w)) = None"
    and nomatch: "find (more_predicate ctx) (arriving tr (length w + 2)) = None"
    and del: "delete_outcome tr (length w + 3) = None
         \<or> (\<exists>e. delete_outcome tr (length w + 3) = Some e \<and> is_HTTPException e)"
  shows "send_interactive tr ctx (Some ([p1, p2, p3], None)) box_lang w
           = Some (w @ [Sent (render box_lang p1), Sent (remaining_query 2), TimedOut,
                        (case delete_outcome tr (length w + 3) of
                           None \<Rightarrow> Deleted (Suc (length w))
                         | Some e \<Rightarrow> DeleteFailed (Suc (length w)) e)],
                   Inr [length w])"
proof -
  define q where "q = remaining_query 2"
  define w1 where "w1 = w @ [Sent (render box_lang p1)]"
  define w2 where "w2 = w1 @ [Sent q]"
  define w3 where "w3 = w2 @ [TimedOut]"
  define d where "d = (case delete_outcome tr (length w + 3) of
                      None \<Rightarrow> Deleted (Suc (length w))
                    | Some e \<Rightarrow> DeleteFailed (Suc (length w)) e)"
  have q: "remaining_query (Suc (Suc 0)) = q"
    by (simp add: q_def numeral_2_eq_2)
  have page: "send tr w (render box_lang p1) = (w1, Inr (length w))"
    using s1 by (simp add: send_def w1_def)
  have query: "send tr w1 q = (w2, Inr (Suc (length w)))"
    using s2 by (simp add: send_def w1_def w2_def)
  have wait: "wait_for tr w2 (more_predicate ctx) = (w3, Inl TimeoutError)"
    using nomatch by (simp add: wait_for_def w1_def w2_def w3_def)
  have len3: "length w3 = length w + 3"
    by (simp add: w1_def w2_def w3_def)
  have gone: "suppress_HTTPException (delete tr w3 (Suc (length w))) = (w3 @ [d], None)"
    using del by (auto simp: suppress_HTTPException_def delete_def len3 d_def)
  have "send_interactive tr ctx (Some ([p1, p2, p3], None)) box_lang w
          = Some (w3 @ [d], Inr [length w])"
    by (simp add: send_interactive_def q page query wait gone)
  then show ?thesis
    by (simp add: w1_def w2_def w3_def d_def q_def)
qed

theorem send_interactive_timeout_witness:
  "send_interactive stranger_transport example_ctx (Some ([''a'', ''b'', ''c''], None))
     (Some ''py'') []
   = Some ([Sent ''```py\<newline>a\<newline>```'',
            Sent ''There are still 2 messages remaining. Type `more` to continue.'',
            TimedOut, DeleteFailed 1 Forbidden],
           Inr [0])"
  using send_interactive_timeout[of stranger_transport "[]" example_ctx "''a''" "''b''" "''c''"
          "Some ''py''"]
  by (simp add: stranger_transport_def example_ctx_def more_predicate_def render_def
        remaining_query_def)

section \<open>The concrete objects at work\<close>

lemma toy_env: "get_environment example_cog example_ctx = Inr (base_environment example_cog example_ctx)"
  by (simp add: get_environment_def example_cog_def)

lemma clean1: "cleanup_code ''None'' = ''None''"
  by (simp add: cleanup_code_def startswith_def strip_chars_def)

lemma clean2: "cleanup_code ''`boom`'' = ''boom''"
  by (simp add: cleanup_code_def startswith_def strip_chars_def)

lemma clean3: "cleanup_code ''return 7'' = ''return 7''"
  by (simp add: cleanup_code_def startswith_def strip_chars_def)

lemma await2: "maybe_await VNone = Return VNone"
  by (simp add: maybe_await_def upt_rec)

lemma toy_host_simps:
  "compile toy_host source mode = Inr (Code mode source)"
  "execute toy_host (Code ExecMode source) env
     = (env(''func'' \<mapsto> Function (Code ExecMode source)), [], Return VNone)"
  "execute toy_host (Code EvalMode source) env
     = (env, [], if source = ''None'' then Return VNone
                 else if source = ''boom'' then Raise RuntimeError
                 else Return (VStr source))"
  "call_func toy_host (Function (Code mode source))
     = ([], if source = ''async def func():\<newline>  return 7'' then Return (VInt 7)
            else Return VNone)"
  "indent toy_host body pre = pre @ body"
  by (simp_all add: toy_host_def)

lemma quiet_tick: "tick quiet_transport example_ctx w = (w @ [Reacted], Inr True)"
  by (simp add: tick_def add_reaction_def quiet_transport_def example_ctx_def)

lemma quiet_send: "send quiet_transport w text = (w @ [Sent text], Inr (length w))"
  by (simp add: send_def quiet_transport_def)

section \<open>Properties of the environment\<close>





section \<open>Properties of the last result\<close>

lemma debug_last_result:
  "last_result (fst (debug h tr self ctx code w))
     = (case get_environment self ctx of
          Inl e \<Rightarrow> last_result self
        | Inr env \<Rightarrow>
            (case debug_try h env (cleanup_code code) of
               Raise e \<Rightarrow> last_result self
             | Return result \<Rightarrow> result))"
  by (simp add: debug_def Let_def split: sum.split outcome.split prod.split)

lemma eval_cmd_last_result:
  assumes "last_result (fst (eval_cmd h tr self ctx body w)) \<noteq> last_result self"
  shows "\<exists>env compiled env1 printed x func out result.
           get_environment self ctx = Inr env
         \<and> compile h (''async def func():\<newline>'' @ indent h (cleanup_code body) ''  '') ExecMode
              = Inr compiled
         \<and> execute h compiled env = (env1, printed, Return x)
         \<and> env1 ''func'' = Some func
         \<and> call_func h func = (out, Return result)
         \<and> result \<noteq> VNone
         \<and> last_result (fst (eval_cmd h tr self ctx body w)) = result"
  using assms
  by (auto simp: eval_cmd_def eval_call_def Let_def
      split: sum.splits outcome.splits prod.splits option.splits if_splits)

lemma repl_body_last_result:
  "last_result (fst (repl_body h tr self ctx env response w)) = last_result self"
  by (simp add: repl_body_def Let_def split: option.split sum.split prod.split)

lemma repl_execute_underscore:
  assumes "fst (repl_execute h env code) ''_'' \<noteq> fst (execute h code env) ''_''"
  shows "\<exists>env1 printed r result.
           execute h code env = (env1, printed, Return r)
         \<and> maybe_await r = Return result
         \<and> result \<noteq> VNone
         \<and> fst (repl_execute h env code) ''_'' = Some (Value result)"
  using assms
  by (auto simp: repl_execute_def split: prod.splits outcome.splits if_splits)

lemma toy_eval_changes:
  "last_result (fst (eval_cmd toy_host quiet_transport example_cog example_ctx ''return 7'' []))
     = VInt 7"
  by (simp add: eval_cmd_def toy_env clean3 toy_host_simps eval_call_def quiet_tick Let_def)

text \<open>
  C7 (as amended). In \<open>debug\<close> every successful evaluation overwrites the last result
  with its value, also when that value is \<open>None\<close>; when the environment cannot be built,
  or compiling, evaluating or awaiting raises, the last result is unchanged. In \<open>eval\<close>
  the last result changes only when the call of the wrapped function returned a value
  that is not \<open>None\<close>, and then it is that value; so it is kept when the call raises and
  when it returns \<open>None\<close>. A pass of the session loop never changes the last result of
  the cog, and it overwrites the session's own \<open>_\<close> only with a successful result that
  is not \<open>None\<close>.
\<close>

theorem last_result_overwritten:
  "last_result (fst (debug h tr self ctx code w))
     = (case get_environment self ctx of
          Inl e \<Rightarrow> last_result self
        | Inr env \<Rightarrow>
            (case debug_try h env (cleanup_code code) of
               Raise e \<Rightarrow> last_result self
             | Return result \<Rightarrow> result))
   \<and> (last_result (fst (eval_cmd h tr self ctx body w)) \<noteq> last_result self \<longrightarrow>
        (\<exists>env compiled env1 printed x func out result.
           get_environment self ctx = Inr env
         \<and> compile h (''async def func():\<newline>'' @ indent h (cleanup_code body) ''  '') ExecMode
              = Inr compiled
         \<and> execute h compiled env = (env1, printed, Return x)
         \<and> env1 ''func'' = Some func
         \<and> call_func h func = (out, Return result)
         \<and> result \<noteq> VNone
         \<and> last_result (fst (eval_cmd h tr self ctx body w)) = result))
   \<and> last_result (fst (repl_body h tr self ctx session_env response w)) = last_result self
   \<and> (fst (repl_execute h session_env compiled') ''_''
         \<noteq> fst (execute h compiled' session_env) ''_'' \<longrightarrow>
        (\<exists>env1 printed r result.
           execute h compiled' session_env = (env1, printed, Return r)
         \<and> maybe_await r = Return result
         \<and> result \<noteq> VNone
         \<and> fst (repl_execute h session_env compiled') ''_'' = Some (Value result)))"
proof (intro conjI impI)
  show "last_result (fst (debug h tr self ctx code w))
     = (case get_environment self ctx of
          Inl e \<Rightarrow> last_result self
        | Inr env \<Rightarrow>
            (case debug_try h env (cleanup_code code) of
               Raise e \<Rightarrow> last_result self
             | Return result \<Rightarrow> result))"
    by (rule debug_last_result)
next
  assume "last_result (fst (eval_cmd h tr self ctx body w)) \<noteq> last_result self"
  then show "\<exists>env compiled env1 printed x func out result.
           get_environment self ctx = Inr env
         \<and> compile h (''async def func():\<newline>'' @ indent h (cleanup_code body) ''  '') ExecMode
              = Inr compiled
         \<and> execute h compiled env = (env1, printed, Return x)
         \<and> env1 ''func'' = Some func
         \<and> call_func h func = (out, Return result)
         \<and> result \<noteq> VNone
         \<and> last_result (fst (eval_cmd h tr self ctx body w)) = result"
    by (rule eval_cmd_last_result)
next
  show "last_result (fst (repl_body h tr self ctx session_env response w)) = last_result self"
    by (rule repl_body_last_result)
next
  assume "fst (repl_execute h session_env compiled') ''_''
            \<noteq> fst (execute h compiled' session_env) ''_''"
  then show "\<exists>env1 printed r result.
           execute h compiled' session_env = (env1, printed, Return r)
         \<and> maybe_await r = Return result
         \<and> result \<noteq> VNone
         \<and> fst (repl_execute h session_env compiled') ''_'' = Some (Value result)"
    by (rule repl_execute_underscore)
qed

theorem last_result_overwritten_witness:
  "last_result (fst (debug toy_host quiet_transport example_cog example_ctx ''`boom`'' []))
     = VInt 1
   \<and> last_result (fst (eval_cmd toy_host quiet_transport example_cog example_ctx ''return 7'' []))
       \<noteq> last_result example_cog
   \<and> last_result (fst (eval_cmd toy_host quiet_transport example_cog example_ctx ''return 7'' []))
       \<noteq> VNone"
proof -
  have lr: "last_result example_cog = VInt 1"
    by (simp add: example_cog_def)
  note t = last_result_overwritten[of toy_host quiet_transport example_cog example_ctx
      "''`boom`''" "[]" "''return 7''"]
  from t have "last_result (fst (debug toy_host quiet_transport example_cog example_ctx
                  ''`boom`'' [])) = last_result example_cog"
    by (simp add: toy_env clean2 debug_try_def toy_host_simps)
  then have a: "last_result (fst (debug toy_host quiet_transport example_cog example_ctx
                  ''`boom`'' [])) = VInt 1"
    by (simp add: lr)
  have changed: "last_result (fst (eval_cmd toy_host quiet_transport example_cog example_ctx
                    ''return 7'' [])) \<noteq> last_result example_cog"
    by (simp add: toy_eval_changes lr)
  with t obtain result where "result \<noteq> VNone"
    "last_result (fst (eval_cmd toy_host quiet_transport example_cog example_ctx
        ''return 7'' [])) = result"
    by blast
  with a changed show ?thesis by simp
qed

text \<open>
  C7 fails as stated for \<open>debug\<close>: \<open>self._last_result = result\<close> is not guarded, so the
  expression \<open>None\<close> replaces the last result \<open>1\<close> by \<open>None\<close>.
\<close>

theorem debug_none_counterexample:
  "last_result example_cog = VInt 1
   \<and> last_result (fst (debug toy_host quiet_transport example_cog example_ctx ''None'' [])) = VNone"
  by (simp add: debug_last_result toy_env clean1 debug_try_def toy_host_simps await2)
    (simp add: example_cog_def)

section \<open>Properties of the session loop\<close>







lemma quiet_open:
  "repl_open quiet_transport example_cog example_ctx []
     = (example_cog\<lparr>sessions := (sessions example_cog)(channel_id example_ctx \<mapsto> True)\<rparr>,
        [Sent (''Enter code to execute or evaluate. `exit()` or `quit` to exit.''
                 @ '' `'' @ prefix example_ctx @ ''repl pause` to pause.'')],
        Inr ((base_environment example_cog example_ctx)
               (''__builtins__'' \<mapsto> Builtins, ''_'' \<mapsto> Value VNone)))"
proof -
  have "sessions example_cog (channel_id example_ctx) = None"
    by (simp add: example_cog_def)
  then show ?thesis
    by (simp add: repl_open_def toy_env quiet_send Let_def)
qed

lemma clean_quit: "cleanup_code (content quit_message) = ''quit''"
  by (simp add: quit_message_def cleanup_code_def startswith_def strip_chars_def)

lemma quiet_pause:
  "pause quiet_transport (example_cog\<lparr>sessions := [5 \<mapsto> True]\<rparr>) example_ctx None w
     = (example_cog\<lparr>sessions := [5 \<mapsto> False]\<rparr>,
        w @ [Sent ''The REPL session in this channel is now paused.''], Returned)"
  by (simp add: pause_def example_ctx_def quiet_send Let_def)

text \<open>
  C2 (as amended). In a pass of the session loop the pause check comes first. A message
  whose cleaned content is \<open>quit\<close>, \<open>exit\<close> or \<open>exit()\<close> is discarded while the session is
  paused: nothing is sent, the session stays registered as paused and the loop goes on.
  While the session is running, and the notice \<open>Exiting.\<close> can be sent, the message
  removes the channel's session and ends the loop.
\<close>

theorem repl_quit_after_pause_check:
  assumes "cleanup_code (content response) \<in> set [''quit'', ''exit'', ''exit()'']"
  shows "(sessions self (channel_id ctx) = Some False
            \<longrightarrow> repl_body h tr self ctx env response w = (self, env, w, Continue))
       \<and> (sessions self (channel_id ctx) = Some True \<and> send_outcome tr (length w) = None
            \<longrightarrow> repl_body h tr self ctx env response w
                  = (self\<lparr>sessions := (sessions self)(channel_id ctx := None)\<rparr>, env,
                     w @ [Sent ''Exiting.''], Returned))"
  using assms by (simp add: repl_body_def send_def Let_def)

theorem repl_quit_after_pause_check_witness:
  "repl_body toy_host quiet_transport
     (example_cog\<lparr>sessions := [5 \<mapsto> True]\<rparr>) example_ctx Map.empty quit_message []
   = (example_cog\<lparr>sessions := Map.empty\<rparr>, Map.empty, [Sent ''Exiting.''], Returned)
   \<and> repl_body toy_host quiet_transport
     (example_cog\<lparr>sessions := [5 \<mapsto> False]\<rparr>) example_ctx Map.empty quit_message []
   = (example_cog\<lparr>sessions := [5 \<mapsto> False]\<rparr>, Map.empty, [], Continue)"
proof -
  have q: "cleanup_code (content quit_message) \<in> set [''quit'', ''exit'', ''exit()'']"
    by (simp add: clean_quit)
  have c: "channel_id example_ctx = 5"
    by (simp add: example_ctx_def)
  have s: "send_outcome quiet_transport (length ([] :: world)) = None"
    by (simp add: quiet_transport_def)
  from repl_quit_after_pause_check[OF q, of "example_cog\<lparr>sessions := [5 \<mapsto> True]\<rparr>"
      example_ctx toy_host quiet_transport Map.empty "[]"] c s
  have a: "repl_body toy_host quiet_transport
     (example_cog\<lparr>sessions := [5 \<mapsto> True]\<rparr>) example_ctx Map.empty quit_message []
   = (example_cog\<lparr>sessions := Map.empty\<rparr>, Map.empty, [Sent ''Exiting.''], Returned)"
    by simp
  from repl_quit_after_pause_check[OF q, of "example_cog\<lparr>sessions := [5 \<mapsto> False]\<rparr>"
      example_ctx toy_host quiet_transport Map.empty "[]"] c
  have b: "repl_body toy_host quiet_transport
     (example_cog\<lparr>sessions := [5 \<mapsto> False]\<rparr>) example_ctx Map.empty quit_message []
   = (example_cog\<lparr>sessions := [5 \<mapsto> False]\<rparr>, Map.empty, [], Continue)"
    by simp
  from a b show ?thesis by simp
qed

text \<open>
  C2 fails as stated: a session is opened, paused with \<open>repl pause\<close>, and then receives
  \<open>`quit`\<close> from its author in its channel. The message passes the check of the wait and
  cleans to \<open>quit\<close>, yet the session is still there, paused, and the loop is still
  waiting; no \<open>Exiting.\<close> was sent.
\<close>

theorem repl_quit_while_paused_counterexample:
  "repl_predicate example_ctx quit_message
   \<and> cleanup_code (content quit_message) = ''quit''
   \<and> repl toy_host quiet_transport example_cog example_ctx
        [PauseInvoked example_ctx None, Dispatched quit_message] []
      = (example_cog\<lparr>sessions := [5 \<mapsto> False]\<rparr>,
         [Sent ''Enter code to execute or evaluate. `exit()` or `quit` to exit. `!repl pause` to pause.'',
          Sent ''The REPL session in this channel is now paused.''],
         Continue)"
proof -
  have p: "repl_predicate example_ctx quit_message"
    by (simp add: repl_predicate_def example_ctx_def quit_message_def startswith_def)
  have c: "channel_id example_ctx = 5" "prefix example_ctx = ''!''"
    by (simp_all add: example_ctx_def)
  have s: "sessions example_cog = Map.empty"
    by (simp add: example_cog_def)
  have paused: "repl_body toy_host quiet_transport
     (example_cog\<lparr>sessions := [5 \<mapsto> False]\<rparr>) example_ctx env quit_message w
   = (example_cog\<lparr>sessions := [5 \<mapsto> False]\<rparr>, env, w, Continue)" for env w
    by (simp add: repl_body_def c)
  have "repl toy_host quiet_transport example_cog example_ctx
        [PauseInvoked example_ctx None, Dispatched quit_message] []
      = (example_cog\<lparr>sessions := [5 \<mapsto> False]\<rparr>,
         [Sent ''Enter code to execute or evaluate. `exit()` or `quit` to exit. `!repl pause` to pause.'',
          Sent ''The REPL session in this channel is now paused.''],
         Continue)"
    by (simp add: repl_def quiet_open c s quiet_pause p paused)
  with p clean_quit show ?thesis by simp
qed

lemma repl_quit_send_fails:
  assumes "cleanup_code (content response) \<in> set [''quit'', ''exit'', ''exit()'']"
    and "sessions self (channel_id ctx) = Some True"
    and "send_outcome tr (length w) = Some e"
  shows "repl_body h tr self ctx env response w
           = (self, env, w @ [SendFailed ''Exiting.'' e], Raised e)"
  using assms by (simp add: repl_body_def send_def Let_def)










end
